theory Spec2Isabelle
  imports Main "HOL-Library.Sublist"
begin

section \<open>Client-secret authentication methods of go-azure-helpers\<close>

text \<open>
  The two source files declare the single-tenant method
  \<^verbatim>\<open>servicePrincipalClientSecretAuth\<close> and the multi-tenant method
  \<^verbatim>\<open>servicePrincipalClientSecretMultiTenantAuth\<close>. Both are plain structs of strings,
  a flag and a context; every method has a value receiver, so no method mutates its
  instance. Go strings are byte sequences and are modelled as \<open>string\<close>; the empty Go
  string is \<open>[]\<close>. A nil slice and an empty slice both have length 0 and are both \<open>[]\<close>.
\<close>

subsection \<open>Library values the methods handle\<close>

text \<open>
  A \<^verbatim>\<open>context.Context\<close> is an interface value: \<open>None\<close> is the nil interface,
  \<open>Background\<close> is what \<^verbatim>\<open>context.Background()\<close> returns, and any other context is
  told apart by a label.
\<close>

datatype "context" = Background | Derived nat

text \<open>The two constants of package \<^verbatim>\<open>auth\<close> that the methods name.\<close>

datatype TokenVersion = TokenVersion2 | TokenVersion1

datatype ClientCredentialsType = ClientCredentialsAssertionType | ClientCredentialsSecretType

text \<open>
  \<^verbatim>\<open>auth.ClientCredentialsConfig\<close>, with the six fields the composite literal of
  \<^verbatim>\<open>getAuthorizationTokenV2\<close> sets. The environment descriptor is a type parameter:
  it is produced by the environment resolver and only passed on.
\<close>

record 'env ClientCredentialsConfig =
  Environment :: 'env
  TenantID :: string
  ClientID :: string
  ClientSecret :: string
  Scopes :: "string list"
  TokenVersion :: TokenVersion

text \<open>
  \<^verbatim>\<open>adal.MultiTenantServicePrincipalToken\<close>: a primary token and the auxiliary tokens,
  over an opaque token type.
\<close>

record 'tok MultiTenantServicePrincipalToken =
  PrimaryToken :: 'tok
  AuxiliaryTokens :: "'tok list"

text \<open>
  Modelled from the spec: the declaration of \<^verbatim>\<open>OAuthConfig\<close> is not among the source
  files. It holds the single-tenant and the multi-tenant sub-configuration, each of
  which may be absent (a nil pointer, \<open>None\<close>).
\<close>

record ('o, 'm) OAuthConfig =
  OAuth :: "'o option"
  MultiTenantOauth :: "'m option"

text \<open>
  Modelled from the spec: the declaration of \<^verbatim>\<open>Builder\<close> is not among the source
  files. These are the fields the spec lists as consumed, under the names the methods
  use.
\<close>

record Builder =
  Context :: "context option"
  ClientID :: string
  ClientSecret :: string
  Environment :: string
  SubscriptionID :: string
  TenantID :: string
  TenantOnly :: bool
  AuxiliaryTenantIDs :: "string list"
  SupportsClientSecretAuth :: bool
  SupportsAuxiliaryTenants :: bool

subsection \<open>The two instance types\<close>

record servicePrincipalClientSecretAuth =
  ctx :: "context option"
  clientId :: string
  clientSecret :: string
  environment :: string
  subscriptionId :: string
  tenantId :: string
  tenantOnly :: bool

text \<open>
  The multi-tenant struct declares the same seven fields, in the same order, followed by
  \<^verbatim>\<open>auxiliaryTenantIDs\<close>. It is a type of its own: no function below accepts one
  struct where it expects the other.
\<close>

record servicePrincipalClientSecretMultiTenantAuth = servicePrincipalClientSecretAuth +
  auxiliaryTenantIDs :: "string list"

subsection \<open>Strings and errors\<close>

text \<open>
  \<^verbatim>\<open>strings.TrimRight(s, cutset)\<close> removes every trailing character of \<open>s\<close> that
  occurs in \<open>cutset\<close>. The only cutset used is \<^verbatim>\<open>"/"\<close>, a single byte that is never
  part of a longer UTF-8 sequence, so bytes and code points agree.
\<close>

definition TrimRight :: "string \<Rightarrow> string \<Rightarrow> string" where
  "TrimRight s cutset = rev (dropWhile (\<lambda>c. c \<in> set cutset) (rev s))"

text \<open>\<^verbatim>\<open>strings.Contains(s, substr)\<close>: \<open>substr\<close> occurs in \<open>s\<close> as a contiguous run.\<close>

definition Contains :: "string \<Rightarrow> string \<Rightarrow> bool" where
  "Contains s substr = sublist substr s"

text \<open>
  Modelled from the spec: package \<^verbatim>\<open>go-multierror\<close> is not among the source files.
  A \<^verbatim>\<open>*multierror.Error\<close> is the list of the errors collected so far, each kept as
  its message; the nil pointer is \<open>None\<close>. \<^verbatim>\<open>Append\<close> adds one error at the end,
  allocating the list when the pointer is nil, and \<^verbatim>\<open>ErrorOrNil\<close> yields the nil
  error when the pointer is nil or nothing was collected.
\<close>

type_synonym multierror = "string list"

definition Append :: "multierror option \<Rightarrow> string \<Rightarrow> multierror option" where
  "Append err e = (case err of None \<Rightarrow> Some [e] | Some es \<Rightarrow> Some (es @ [e]))"

definition ErrorOrNil :: "multierror option \<Rightarrow> multierror option" where
  "ErrorOrNil err =
     (case err of None \<Rightarrow> None | Some es \<Rightarrow> if es = [] then None else Some es)"

text \<open>
  An error returned by \<^verbatim>\<open>validate\<close> mentions a field when the message of one of the
  collected errors contains the field's name; the nil error mentions nothing.
\<close>

definition mentions :: "multierror option \<Rightarrow> string \<Rightarrow> bool" where
  "mentions err field =
     (case err of None \<Rightarrow> False | Some es \<Rightarrow> list_ex (\<lambda>m. Contains m field) es)"

subsection \<open>The single-tenant method\<close>

text \<open>
  \<^verbatim>\<open>build\<close> returns the pair of a method and an error; \<open>Inr\<close> is a method with the
  nil error. The receiver is not read.
\<close>

definition servicePrincipalClientSecretAuth_build ::
  "servicePrincipalClientSecretAuth \<Rightarrow> Builder \<Rightarrow> string + servicePrincipalClientSecretAuth" where
  "servicePrincipalClientSecretAuth_build a b =
     Inr \<lparr>ctx = Context b,
          clientId = ClientID b,
          clientSecret = ClientSecret b,
          environment = Environment b,
          subscriptionId = SubscriptionID b,
          tenantId = TenantID b,
          tenantOnly = TenantOnly b\<rparr>"

definition servicePrincipalClientSecretAuth_isApplicable ::
  "servicePrincipalClientSecretAuth \<Rightarrow> Builder \<Rightarrow> bool" where
  "servicePrincipalClientSecretAuth_isApplicable a b =
     (SupportsClientSecretAuth b \<and> ClientSecret b \<noteq> [])"

text \<open>
  \<^verbatim>\<open>getAuthorizationTokenV2\<close> calls three things of the hamilton and autorest
  libraries, taken here as parameters:
  \<^item> \<open>EnvironmentFromString\<close>, the environment resolver, which returns an
    environment descriptor (\<open>Inr\<close>) or an error message (\<open>Inl\<close>);
  \<^item> \<open>TokenSource\<close>, which turns a configuration, a context and a credential type
    into a hamilton authorizer;
  \<^item> \<open>asAuthorizer\<close>, the type assertion to \<^verbatim>\<open>autorest.Authorizer\<close>, which is
    \<open>None\<close> when the assertion fails.
  The result is \<open>Inl\<close> of the error message with no authorizer, or \<open>Inr\<close> of the
  authorizer with the nil error. The sender and the OAuth configuration are not read.
\<close>

definition servicePrincipalClientSecretAuth_getAuthorizationTokenV2 ::
  "(string \<Rightarrow> string + 'env) \<Rightarrow>
   ('env ClientCredentialsConfig \<Rightarrow> context \<Rightarrow> ClientCredentialsType \<Rightarrow> 'h) \<Rightarrow>
   ('h \<Rightarrow> 'z option) \<Rightarrow>
   servicePrincipalClientSecretAuth \<Rightarrow> 'snd \<Rightarrow> 'oa \<Rightarrow> string \<Rightarrow> string + 'z" where
  "servicePrincipalClientSecretAuth_getAuthorizationTokenV2
       EnvironmentFromString TokenSource asAuthorizer a sender oauth endpoint =
     (case EnvironmentFromString (environment a) of
        Inl err \<Rightarrow> Inl (''environment config error: '' @ err)
      | Inr env \<Rightarrow>
          (let conf = \<lparr>ClientCredentialsConfig.Environment = env,
                       ClientCredentialsConfig.TenantID = tenantId a,
                       ClientCredentialsConfig.ClientID = clientId a,
                       ClientCredentialsConfig.ClientSecret = clientSecret a,
                       Scopes = [TrimRight endpoint ''/'' @ ''/.default''],
                       TokenVersion = TokenVersion2\<rparr>;
               c = (case ctx a of None \<Rightarrow> Background | Some c' \<Rightarrow> c');
               authorizer = TokenSource conf c ClientCredentialsSecretType
           in case asAuthorizer authorizer of
                Some authTyped \<Rightarrow> Inr authTyped
              | None \<Rightarrow>
                  Inl ''returned auth.Authorizer does not implement autorest.Authorizer''))"

text \<open>
  The format string of \<^verbatim>\<open>validate\<close> has one \<^verbatim>\<open>%s\<close>, which \<^verbatim>\<open>fmt.Errorf\<close>
  replaces by the field's name.
\<close>

definition servicePrincipalClientSecretAuth_fmtErrorMessage :: "string \<Rightarrow> string" where
  "servicePrincipalClientSecretAuth_fmtErrorMessage field =
     ''A '' @ field @
     '' must be configured when authenticating as a Service Principal using a Client Secret.''"

definition servicePrincipalClientSecretAuth_validate ::
  "servicePrincipalClientSecretAuth \<Rightarrow> multierror option" where
  "servicePrincipalClientSecretAuth_validate a =
     (let err = None;
          err = (if \<not> tenantOnly a \<and> subscriptionId a = []
                 then Append err (servicePrincipalClientSecretAuth_fmtErrorMessage ''Subscription ID'')
                 else err);
          err = (if clientId a = []
                 then Append err (servicePrincipalClientSecretAuth_fmtErrorMessage ''Client ID'')
                 else err);
          err = (if clientSecret a = []
                 then Append err (servicePrincipalClientSecretAuth_fmtErrorMessage ''Client Secret'')
                 else err);
          err = (if tenantId a = []
                 then Append err (servicePrincipalClientSecretAuth_fmtErrorMessage ''Tenant ID'')
                 else err)
      in ErrorOrNil err)"

subsection \<open>The multi-tenant method\<close>

definition servicePrincipalClientSecretMultiTenantAuth_build ::
  "servicePrincipalClientSecretMultiTenantAuth \<Rightarrow> Builder \<Rightarrow>
   string + servicePrincipalClientSecretMultiTenantAuth" where
  "servicePrincipalClientSecretMultiTenantAuth_build a b =
     Inr \<lparr>ctx = Context b,
          clientId = ClientID b,
          clientSecret = ClientSecret b,
          environment = Environment b,
          subscriptionId = SubscriptionID b,
          tenantId = TenantID b,
          tenantOnly = TenantOnly b,
          auxiliaryTenantIDs = AuxiliaryTenantIDs b\<rparr>"

definition servicePrincipalClientSecretMultiTenantAuth_isApplicable ::
  "servicePrincipalClientSecretMultiTenantAuth \<Rightarrow> Builder \<Rightarrow> bool" where
  "servicePrincipalClientSecretMultiTenantAuth_isApplicable a b =
     (SupportsClientSecretAuth b \<and> ClientSecret b \<noteq> [] \<and> SupportsAuxiliaryTenants b \<and>
      length (AuxiliaryTenantIDs b) > 0)"

text \<open>
  \<^verbatim>\<open>getAuthorizationToken\<close> receives a pointer to the OAuth configuration and
  dereferences it first: on a nil pointer (\<open>None\<close>) the call panics, which is the
  result \<open>None\<close>. Otherwise the result is \<open>Some\<close> of an error message with no
  authorizer (\<open>Inl\<close>) or of an authorizer with the nil error (\<open>Inr\<close>). The three adal
  and autorest functions it calls are parameters: the token constructor, which may
  fail with an error message, \<^verbatim>\<open>SetSender\<close>, which binds a sender to one token, and
  the constructor of the authorizer.
\<close>

definition servicePrincipalClientSecretMultiTenantAuth_getAuthorizationToken ::
  "('m \<Rightarrow> string \<Rightarrow> string \<Rightarrow> string \<Rightarrow> string + 'tok MultiTenantServicePrincipalToken) \<Rightarrow>
   ('tok \<Rightarrow> 'snd \<Rightarrow> 'tok) \<Rightarrow>
   ('tok MultiTenantServicePrincipalToken \<Rightarrow> 'z) \<Rightarrow>
   servicePrincipalClientSecretMultiTenantAuth \<Rightarrow> 'snd \<Rightarrow> ('o, 'm) OAuthConfig option \<Rightarrow>
   string \<Rightarrow> (string + 'z) option" where
  "servicePrincipalClientSecretMultiTenantAuth_getAuthorizationToken
       NewMultiTenantServicePrincipalToken SetSender
       NewMultiTenantServicePrincipalTokenAuthorizer a sender oauth endpoint =
     (case oauth of
        None \<Rightarrow> None
      | Some oa \<Rightarrow>
          (case MultiTenantOauth oa of
             None \<Rightarrow>
               Some (Inl ''getting Authorization Token for client cert: an MultiTenantOauth token wasn't configured correctly; please file a bug with more details'')
           | Some mto \<Rightarrow>
               (case NewMultiTenantServicePrincipalToken mto (clientId a) (clientSecret a) endpoint of
                  Inl err \<Rightarrow> Some (Inl err)
                | Inr spt \<Rightarrow>
                    (let spt = spt\<lparr>PrimaryToken := SetSender (PrimaryToken spt) sender\<rparr>;
                         spt = spt\<lparr>AuxiliaryTokens :=
                                    map (\<lambda>t. SetSender t sender) (AuxiliaryTokens spt)\<rparr>
                     in Some (Inr (NewMultiTenantServicePrincipalTokenAuthorizer spt))))))"

definition servicePrincipalClientSecretMultiTenantAuth_getAuthorizationTokenV2 ::
  "(string \<Rightarrow> string + 'env) \<Rightarrow>
   ('env ClientCredentialsConfig \<Rightarrow> context \<Rightarrow> ClientCredentialsType \<Rightarrow> 'h) \<Rightarrow>
   ('h \<Rightarrow> 'z option) \<Rightarrow>
   servicePrincipalClientSecretMultiTenantAuth \<Rightarrow> 'snd \<Rightarrow> 'oa \<Rightarrow> string \<Rightarrow> string + 'z" where
  "servicePrincipalClientSecretMultiTenantAuth_getAuthorizationTokenV2
       EnvironmentFromString TokenSource asAuthorizer a sender oauth endpoint =
     (case EnvironmentFromString (environment a) of
        Inl err \<Rightarrow> Inl (''environment config error: '' @ err)
      | Inr env \<Rightarrow>
          (let conf = \<lparr>ClientCredentialsConfig.Environment = env,
                       ClientCredentialsConfig.TenantID = tenantId a,
                       ClientCredentialsConfig.ClientID = clientId a,
                       ClientCredentialsConfig.ClientSecret = clientSecret a,
                       Scopes = [TrimRight endpoint ''/'' @ ''/.default''],
                       TokenVersion = TokenVersion2\<rparr>;
               c = (case ctx a of None \<Rightarrow> Background | Some c' \<Rightarrow> c');
               authorizer = TokenSource conf c ClientCredentialsSecretType
           in case asAuthorizer authorizer of
                Some authTyped \<Rightarrow> Inr authTyped
              | None \<Rightarrow>
                  Inl ''returned auth.Authorizer does not implement autorest.Authorizer''))"

definition servicePrincipalClientSecretMultiTenantAuth_fmtErrorMessage :: "string \<Rightarrow> string" where
  "servicePrincipalClientSecretMultiTenantAuth_fmtErrorMessage field =
     field @
     '' must be configured when authenticating as a Service Principal using a Multi Tenant Client Secret.''"

definition servicePrincipalClientSecretMultiTenantAuth_validate ::
  "servicePrincipalClientSecretMultiTenantAuth \<Rightarrow> multierror option" where
  "servicePrincipalClientSecretMultiTenantAuth_validate a =
     (let err = None;
          err = (if \<not> tenantOnly a \<and> subscriptionId a = []
                 then Append err (servicePrincipalClientSecretMultiTenantAuth_fmtErrorMessage ''Subscription ID'')
                 else err);
          err = (if clientId a = []
                 then Append err (servicePrincipalClientSecretMultiTenantAuth_fmtErrorMessage ''Client ID'')
                 else err);
          err = (if clientSecret a = []
                 then Append err (servicePrincipalClientSecretMultiTenantAuth_fmtErrorMessage ''Client Secret'')
                 else err);
          err = (if tenantId a = []
                 then Append err (servicePrincipalClientSecretMultiTenantAuth_fmtErrorMessage ''Tenant ID'')
                 else err);
          err = (if length (auxiliaryTenantIDs a) = 0
                 then Append err (servicePrincipalClientSecretMultiTenantAuth_fmtErrorMessage ''Auxiliary Tenant IDs'')
                 else err)
      in ErrorOrNil err)"

subsection \<open>The spec's wording, for comparison\<close>

text \<open>
  The fields the spec requires of a single-tenant instance, in the order the method
  checks them, each with the condition under which it is missing; the missing fields
  are the names whose condition holds.
\<close>

definition servicePrincipalClientSecretAuth_missing ::
  "servicePrincipalClientSecretAuth \<Rightarrow> string list" where
  "servicePrincipalClientSecretAuth_missing a =
     map fst (filter snd
       [(''Subscription ID'', \<not> tenantOnly a \<and> subscriptionId a = []),
        (''Client ID'', clientId a = []),
        (''Client Secret'', clientSecret a = []),
        (''Tenant ID'', tenantId a = [])])"

text \<open>
  "Stripping the trailing slash", read to the letter: one final \<^verbatim>\<open>/\<close> is removed
  when there is one.
\<close>

definition stripTrailingSlash_spec :: "string \<Rightarrow> string" where
  "stripTrailingSlash_spec s = (if s \<noteq> [] \<and> last s = CHR ''/'' then butlast s else s)"

subsection \<open>Stand-ins for the library, to run the methods on concrete inputs\<close>

text \<open>
  A resolver that knows one environment name, a token source that records what it was
  called with, and a token constructor that always succeeds. They replace the library
  parameters wherever a method is evaluated at a concrete input; no general theorem
  depends on them.
\<close>

definition stub_EnvironmentFromString :: "string \<Rightarrow> string + nat" where
  "stub_EnvironmentFromString env =
     (if env = ''public'' then Inr 0 else Inl (''invalid environment specified: '' @ env))"

definition stub_TokenSource ::
  "nat ClientCredentialsConfig \<Rightarrow> context \<Rightarrow> ClientCredentialsType \<Rightarrow>
   nat ClientCredentialsConfig \<times> context \<times> ClientCredentialsType" where
  "stub_TokenSource conf c t = (conf, c, t)"

definition stub_NewMultiTenantServicePrincipalToken ::
  "string list \<Rightarrow> string \<Rightarrow> string \<Rightarrow> string \<Rightarrow>
   string + (string \<times> nat option) MultiTenantServicePrincipalToken" where
  "stub_NewMultiTenantServicePrincipalToken tenants cid secret resource =
     (case tenants of
        [] \<Rightarrow> Inl ''parameter 'multiTenantCfg' cannot be nil''
      | t # ts \<Rightarrow> Inr \<lparr>PrimaryToken = (t, None), AuxiliaryTokens = map (\<lambda>x. (x, None)) ts\<rparr>)"

definition stub_SetSender :: "string \<times> nat option \<Rightarrow> nat \<Rightarrow> string \<times> nat option" where
  "stub_SetSender tok sender = (fst tok, Some sender)"

section \<open>Properties\<close>

subsection \<open>Trimming trailing slashes\<close>

lemma TrimRight_snoc:
  "TrimRight (s @ [c]) cutset = (if c \<in> set cutset then TrimRight s cutset else s @ [c])"
  by (simp add: TrimRight_def)

lemma TrimRight_Nil: "TrimRight [] cutset = []"
  by (simp add: TrimRight_def)

lemma TrimRight_slash_decomp: "\<exists>n. s = TrimRight s ''/'' @ replicate n CHR ''/''"
proof (induction s rule: rev_induct)
  case Nil
  show ?case by (simp add: TrimRight_Nil)
next
  case (snoc c s)
  then obtain n where n: "s = TrimRight s ''/'' @ replicate n CHR ''/''" by blast
  show ?case
  proof (cases "c = CHR ''/''")
    case True
    have "s @ [c] = TrimRight s ''/'' @ replicate (Suc n) CHR ''/''"
      using n True by (metis append.assoc replicate_Suc replicate_append_same)
    moreover have "TrimRight (s @ [c]) ''/'' = TrimRight s ''/''"
      using True by (simp add: TrimRight_snoc)
    ultimately show ?thesis by metis
  next
    case False
    then have "s @ [c] = TrimRight (s @ [c]) ''/'' @ replicate 0 CHR ''/''"
      by (simp add: TrimRight_snoc)
    then show ?thesis by blast
  qed
qed

lemma TrimRight_slash_last:
  "TrimRight s ''/'' = [] \<or> last (TrimRight s ''/'') \<noteq> CHR ''/''"
  by (induction s rule: rev_induct) (simp_all add: TrimRight_Nil TrimRight_snoc)

lemma TrimRight_slash_unique:
  "t = [] \<or> last t \<noteq> CHR ''/'' \<Longrightarrow> TrimRight (t @ replicate n CHR ''/'') ''/'' = t"
proof (induction n)
  case 0
  then show ?case by (cases t rule: rev_cases) (auto simp: TrimRight_Nil TrimRight_snoc)
next
  case (Suc n)
  have "t @ replicate (Suc n) CHR ''/'' = (t @ replicate n CHR ''/'') @ [CHR ''/'']"
    by (simp add: replicate_append_same)
  then show ?case using Suc by (simp only: TrimRight_snoc) simp
qed

lemma TrimRight_eq_spec:
  "\<not> suffix ''//'' s \<Longrightarrow> TrimRight s ''/'' = stripTrailingSlash_spec s"
proof (cases s rule: rev_cases)
  case Nil
  then show ?thesis by (simp add: TrimRight_Nil stripTrailingSlash_spec_def)
next
  case (snoc t c)
  assume ns: "\<not> suffix ''//'' s"
  show ?thesis
  proof (cases "c = CHR ''/''")
    case False
    then show ?thesis using snoc by (simp add: TrimRight_snoc stripTrailingSlash_spec_def)
  next
    case True
    have "t = [] \<or> last t \<noteq> CHR ''/''"
    proof (cases t rule: rev_cases)
      case Nil then show ?thesis by simp
    next
      case (snoc u d)
      with ns \<open>s = t @ [c]\<close> True have "d \<noteq> CHR ''/''"
        by (auto simp: suffix_def)
      then show ?thesis using snoc by simp
    qed
    then have "TrimRight t ''/'' = t"
      using TrimRight_slash_unique[of t 0] by simp
    then show ?thesis using snoc True by (simp add: TrimRight_snoc stripTrailingSlash_spec_def)
  qed
qed

subsection \<open>What \<^verbatim>\<open>validate\<close> collects\<close>

lemma validate_single_eq:
  "servicePrincipalClientSecretAuth_validate a =
     (if servicePrincipalClientSecretAuth_missing a = [] then None
      else Some (map servicePrincipalClientSecretAuth_fmtErrorMessage
                  (servicePrincipalClientSecretAuth_missing a)))"
  by (simp add: servicePrincipalClientSecretAuth_validate_def
      servicePrincipalClientSecretAuth_missing_def Append_def ErrorOrNil_def)

lemma single_msg_Subscription:
  "Contains (servicePrincipalClientSecretAuth_fmtErrorMessage ''Subscription ID'') ''Subscription ID''"
  "\<not> Contains (servicePrincipalClientSecretAuth_fmtErrorMessage ''Client ID'') ''Subscription ID''"
  "\<not> Contains (servicePrincipalClientSecretAuth_fmtErrorMessage ''Client Secret'') ''Subscription ID''"
  "\<not> Contains (servicePrincipalClientSecretAuth_fmtErrorMessage ''Tenant ID'') ''Subscription ID''"
  by code_simp+


lemma single_mentions_Subscription:
  "mentions (servicePrincipalClientSecretAuth_validate a) ''Subscription ID'' =
     (\<not> tenantOnly a \<and> subscriptionId a = [])"
  by (simp add: validate_single_eq servicePrincipalClientSecretAuth_missing_def mentions_def
      single_msg_Subscription)

lemma multi_validate_eq:
  "servicePrincipalClientSecretMultiTenantAuth_validate a =
     (let es = (if \<not> tenantOnly a \<and> subscriptionId a = []
                then [servicePrincipalClientSecretMultiTenantAuth_fmtErrorMessage ''Subscription ID''] else []) @
               (if clientId a = []
                then [servicePrincipalClientSecretMultiTenantAuth_fmtErrorMessage ''Client ID''] else []) @
               (if clientSecret a = []
                then [servicePrincipalClientSecretMultiTenantAuth_fmtErrorMessage ''Client Secret''] else []) @
               (if tenantId a = []
                then [servicePrincipalClientSecretMultiTenantAuth_fmtErrorMessage ''Tenant ID''] else []) @
               (if auxiliaryTenantIDs a = []
                then [servicePrincipalClientSecretMultiTenantAuth_fmtErrorMessage ''Auxiliary Tenant IDs''] else [])
      in if es = [] then None else Some es)"
  by (simp add: servicePrincipalClientSecretMultiTenantAuth_validate_def Append_def ErrorOrNil_def)

lemma multi_msg_Subscription:
  "Contains (servicePrincipalClientSecretMultiTenantAuth_fmtErrorMessage ''Subscription ID'') ''Subscription ID''"
  "\<not> Contains (servicePrincipalClientSecretMultiTenantAuth_fmtErrorMessage ''Client ID'') ''Subscription ID''"
  "\<not> Contains (servicePrincipalClientSecretMultiTenantAuth_fmtErrorMessage ''Client Secret'') ''Subscription ID''"
  "\<not> Contains (servicePrincipalClientSecretMultiTenantAuth_fmtErrorMessage ''Tenant ID'') ''Subscription ID''"
  "\<not> Contains (servicePrincipalClientSecretMultiTenantAuth_fmtErrorMessage ''Auxiliary Tenant IDs'') ''Subscription ID''"
  by code_simp+

lemma multi_mentions_Subscription:
  "mentions (servicePrincipalClientSecretMultiTenantAuth_validate a) ''Subscription ID'' =
     (\<not> tenantOnly a \<and> subscriptionId a = [])"
  by (simp add: multi_validate_eq mentions_def multi_msg_Subscription)

lemma multi_msg_Auxiliary:
  "Contains (servicePrincipalClientSecretMultiTenantAuth_fmtErrorMessage ''Auxiliary Tenant IDs'') ''Auxiliary Tenant IDs''"
  by code_simp

lemma multi_mentions_Auxiliary:
  "auxiliaryTenantIDs a = [] \<Longrightarrow>
   mentions (servicePrincipalClientSecretMultiTenantAuth_validate a) ''Auxiliary Tenant IDs''"
  by (simp add: multi_validate_eq mentions_def multi_msg_Auxiliary)

subsection \<open>The claims\<close>

text \<open>
  C1. The single-tenant \<^verbatim>\<open>isApplicable\<close> holds exactly when the builder supports
  client-secret authentication and its client secret is not empty. Whatever the
  auxiliary-tenant flag and list are set to, the answer is the same.
\<close>

theorem single_tenant_isApplicable_iff:
  "servicePrincipalClientSecretAuth_isApplicable a b =
     (SupportsClientSecretAuth b \<and> ClientSecret b \<noteq> []) \<and>
   servicePrincipalClientSecretAuth_isApplicable a
     (b\<lparr>SupportsAuxiliaryTenants := x, AuxiliaryTenantIDs := ys\<rparr>) =
     servicePrincipalClientSecretAuth_isApplicable a b"
  by (simp add: servicePrincipalClientSecretAuth_isApplicable_def)

text \<open>
  C2. The multi-tenant \<^verbatim>\<open>isApplicable\<close> holds exactly when the builder supports
  client-secret authentication, its client secret is not empty, it supports auxiliary
  tenants, and its list of auxiliary tenant ids is not empty.
\<close>

theorem multi_tenant_isApplicable_iff:
  "servicePrincipalClientSecretMultiTenantAuth_isApplicable a b =
     (SupportsClientSecretAuth b \<and> ClientSecret b \<noteq> [] \<and>
      SupportsAuxiliaryTenants b \<and> AuxiliaryTenantIDs b \<noteq> [])"
  by (simp add: servicePrincipalClientSecretMultiTenantAuth_isApplicable_def)




text \<open>
  C4. With \<^verbatim>\<open>tenantOnly\<close> set and an empty subscription id, the error returned by
  \<^verbatim>\<open>validate\<close>, if any, does not mention the Subscription ID, for the single-tenant
  and for the multi-tenant method. In both, the Subscription ID is mentioned exactly
  when \<^verbatim>\<open>tenantOnly\<close> is false and the subscription id is empty.
\<close>

theorem validate_tenantOnly_no_subscription_complaint:
  "(tenantOnly a \<and> subscriptionId a = [] \<longrightarrow>
      \<not> mentions (servicePrincipalClientSecretAuth_validate a) ''Subscription ID'') \<and>
   (tenantOnly m \<and> subscriptionId m = [] \<longrightarrow>
      \<not> mentions (servicePrincipalClientSecretMultiTenantAuth_validate m) ''Subscription ID'') \<and>
   mentions (servicePrincipalClientSecretAuth_validate a) ''Subscription ID'' =
     (\<not> tenantOnly a \<and> subscriptionId a = []) \<and>
   mentions (servicePrincipalClientSecretMultiTenantAuth_validate m) ''Subscription ID'' =
     (\<not> tenantOnly m \<and> subscriptionId m = [])"
  by (simp add: single_mentions_Subscription multi_mentions_Subscription)

text \<open>
  A tenant-only instance with no subscription id and no client id: there is an error,
  and it is not about the subscription.
\<close>

theorem validate_tenantOnly_no_subscription_complaint_witness:
  "tenantOnly \<lparr>ctx = None, clientId = [], clientSecret = ''s'', environment = ''public'',
      subscriptionId = [], tenantId = ''t'', tenantOnly = True\<rparr> \<and>
   servicePrincipalClientSecretAuth_validate
     \<lparr>ctx = None, clientId = [], clientSecret = ''s'', environment = ''public'',
      subscriptionId = [], tenantId = ''t'', tenantOnly = True\<rparr> \<noteq> None \<and>
   \<not> mentions
       (servicePrincipalClientSecretAuth_validate
          \<lparr>ctx = None, clientId = [], clientSecret = ''s'', environment = ''public'',
           subscriptionId = [], tenantId = ''t'', tenantOnly = True\<rparr>)
       ''Subscription ID'' \<and>
   \<not> mentions
       (servicePrincipalClientSecretMultiTenantAuth_validate
          \<lparr>ctx = None, clientId = [], clientSecret = ''s'', environment = ''public'',
           subscriptionId = [], tenantId = ''t'', tenantOnly = True,
           auxiliaryTenantIDs = []\<rparr>)
       ''Subscription ID''"
  using validate_tenantOnly_no_subscription_complaint
    [of "\<lparr>ctx = None, clientId = [], clientSecret = ''s'', environment = ''public'',
         subscriptionId = [], tenantId = ''t'', tenantOnly = True\<rparr>"
        "\<lparr>ctx = None, clientId = [], clientSecret = ''s'', environment = ''public'',
         subscriptionId = [], tenantId = ''t'', tenantOnly = True,
         auxiliaryTenantIDs = []\<rparr>"]
  by (simp add: validate_single_eq servicePrincipalClientSecretAuth_missing_def)

text \<open>
  C5. A multi-tenant instance with no auxiliary tenant id fails \<^verbatim>\<open>validate\<close>,
  whatever its other fields hold, and the error mentions the Auxiliary Tenant IDs.
\<close>

theorem validate_empty_auxiliary_tenants_fails:
  "auxiliaryTenantIDs m = [] \<Longrightarrow>
   servicePrincipalClientSecretMultiTenantAuth_validate m \<noteq> None \<and>
   mentions (servicePrincipalClientSecretMultiTenantAuth_validate m) ''Auxiliary Tenant IDs''"
  using multi_mentions_Auxiliary[of m]
  by (cases "servicePrincipalClientSecretMultiTenantAuth_validate m") (simp_all add: mentions_def)

text \<open>An instance that is valid but for its empty list of auxiliary tenants.\<close>

theorem validate_empty_auxiliary_tenants_fails_witness:
  "auxiliaryTenantIDs \<lparr>ctx = Some Background, clientId = ''c'', clientSecret = ''s'',
      environment = ''public'', subscriptionId = ''sub-1'', tenantId = ''t'',
      tenantOnly = False, auxiliaryTenantIDs = []\<rparr> = [] \<and>
   servicePrincipalClientSecretMultiTenantAuth_validate
     \<lparr>ctx = Some Background, clientId = ''c'', clientSecret = ''s'',
      environment = ''public'', subscriptionId = ''sub-1'', tenantId = ''t'',
      tenantOnly = False, auxiliaryTenantIDs = []\<rparr> \<noteq> None"
  using validate_empty_auxiliary_tenants_fails
    [of "\<lparr>ctx = Some Background, clientId = ''c'', clientSecret = ''s'',
      environment = ''public'', subscriptionId = ''sub-1'', tenantId = ''t'',
      tenantOnly = False, auxiliaryTenantIDs = []\<rparr>"]
  by simp

lemma Contains_prefix: "Contains (p @ s) p"
  by (simp add: Contains_def)

lemma MultiTenantOauth_message:
  "Contains ''getting Authorization Token for client cert: an MultiTenantOauth token wasn't configured correctly; please file a bug with more details''
     ''wasn't configured correctly''"
  by code_simp

text \<open>
  C6. When the OAuth configuration has no multi-tenant sub-configuration, the
  multi-tenant \<^verbatim>\<open>getAuthorizationToken\<close> returns no authorizer and an error whose
  message contains "wasn't configured correctly". The result is the same for every
  token constructor, every \<^verbatim>\<open>SetSender\<close> and every authorizer constructor: none of
  them is consulted.
\<close>

theorem getAuthorizationToken_missing_MultiTenantOauth:
  "MultiTenantOauth oa = None \<Longrightarrow>
   servicePrincipalClientSecretMultiTenantAuth_getAuthorizationToken
       NewMultiTenantServicePrincipalToken SetSender
       NewMultiTenantServicePrincipalTokenAuthorizer a sender (Some oa) endpoint =
     Some (Inl ''getting Authorization Token for client cert: an MultiTenantOauth token wasn't configured correctly; please file a bug with more details'') \<and>
   Contains ''getting Authorization Token for client cert: an MultiTenantOauth token wasn't configured correctly; please file a bug with more details''
     ''wasn't configured correctly''"
  by (simp add: servicePrincipalClientSecretMultiTenantAuth_getAuthorizationToken_def
      MultiTenantOauth_message)

text \<open>A configuration that has only the single-tenant sub-configuration.\<close>

theorem getAuthorizationToken_missing_MultiTenantOauth_witness:
  "MultiTenantOauth \<lparr>OAuth = Some ''https://login.microsoftonline.com/t'',
                     MultiTenantOauth = (None :: string list option)\<rparr> = None \<and>
   servicePrincipalClientSecretMultiTenantAuth_getAuthorizationToken
       stub_NewMultiTenantServicePrincipalToken stub_SetSender AuxiliaryTokens
       \<lparr>ctx = None, clientId = ''c'', clientSecret = ''s'', environment = ''public'',
        subscriptionId = ''sub-1'', tenantId = ''t'', tenantOnly = False,
        auxiliaryTenantIDs = [''u'']\<rparr>
       7
       (Some \<lparr>OAuth = Some ''https://login.microsoftonline.com/t'',
              MultiTenantOauth = (None :: string list option)\<rparr>)
       ''https://management.azure.com/'' =
     Some (Inl ''getting Authorization Token for client cert: an MultiTenantOauth token wasn't configured correctly; please file a bug with more details'')"
  using getAuthorizationToken_missing_MultiTenantOauth
    [of "\<lparr>OAuth = Some ''https://login.microsoftonline.com/t'',
          MultiTenantOauth = (None :: string list option)\<rparr>"
        stub_NewMultiTenantServicePrincipalToken stub_SetSender AuxiliaryTokens
        "\<lparr>ctx = None, clientId = ''c'', clientSecret = ''s'', environment = ''public'',
          subscriptionId = ''sub-1'', tenantId = ''t'', tenantOnly = False,
          auxiliaryTenantIDs = [''u'']\<rparr>"
        7 "''https://management.azure.com/''"]
  by simp

text \<open>
  C7. When the resolver rejects the instance's environment name,
  \<^verbatim>\<open>getAuthorizationTokenV2\<close> of either method returns no authorizer and an error
  whose message starts with "environment config error" and carries the resolver's
  message, for every endpoint, sender and OAuth configuration.
\<close>

theorem getAuthorizationTokenV2_unrecognized_environment:
  "(EnvironmentFromString (environment a) = Inl err \<longrightarrow>
      servicePrincipalClientSecretAuth_getAuthorizationTokenV2
          EnvironmentFromString TokenSource asAuthorizer a sender oauth endpoint =
        Inl (''environment config error: '' @ err)) \<and>
   (EnvironmentFromString (environment m) = Inl err' \<longrightarrow>
      servicePrincipalClientSecretMultiTenantAuth_getAuthorizationTokenV2
          EnvironmentFromString TokenSource asAuthorizer m sender oauth endpoint =
        Inl (''environment config error: '' @ err')) \<and>
   Contains (''environment config error: '' @ err) ''environment config error'' \<and>
   Contains (''environment config error: '' @ err') ''environment config error''"
proof -
  have "Contains (''environment config error: '' @ e) ''environment config error''" for e
    using Contains_prefix [of "''environment config error''" "'': '' @ e"] by simp
  then show ?thesis
    by (simp add: servicePrincipalClientSecretAuth_getAuthorizationTokenV2_def
        servicePrincipalClientSecretMultiTenantAuth_getAuthorizationTokenV2_def)
qed

text \<open>An environment name the stand-in resolver does not know.\<close>

theorem getAuthorizationTokenV2_unrecognized_environment_witness:
  "stub_EnvironmentFromString ''moon'' = Inl ''invalid environment specified: moon'' \<and>
   servicePrincipalClientSecretAuth_getAuthorizationTokenV2
       stub_EnvironmentFromString stub_TokenSource Some
       \<lparr>ctx = None, clientId = ''c'', clientSecret = ''s'', environment = ''moon'',
        subscriptionId = ''sub-1'', tenantId = ''t'', tenantOnly = False\<rparr>
       () () ''https://management.azure.com/'' =
     Inl ''environment config error: invalid environment specified: moon'' \<and>
   servicePrincipalClientSecretMultiTenantAuth_getAuthorizationTokenV2
       stub_EnvironmentFromString stub_TokenSource Some
       \<lparr>ctx = None, clientId = ''c'', clientSecret = ''s'', environment = ''moon'',
        subscriptionId = ''sub-1'', tenantId = ''t'', tenantOnly = False,
        auxiliaryTenantIDs = [''u'']\<rparr>
       () () ''https://management.azure.com/'' =
     Inl ''environment config error: invalid environment specified: moon''"
proof -
  let ?a = "\<lparr>ctx = None, clientId = ''c'', clientSecret = ''s'', environment = ''moon'',
        subscriptionId = ''sub-1'', tenantId = ''t'', tenantOnly = False\<rparr>"
  let ?m = "\<lparr>ctx = None, clientId = ''c'', clientSecret = ''s'', environment = ''moon'',
        subscriptionId = ''sub-1'', tenantId = ''t'', tenantOnly = False,
        auxiliaryTenantIDs = [''u'']\<rparr>"
  have e: "stub_EnvironmentFromString ''moon'' = Inl ''invalid environment specified: moon''"
    by (simp add: stub_EnvironmentFromString_def)
  have ea: "stub_EnvironmentFromString (environment ?a) = Inl ''invalid environment specified: moon''"
    and em: "stub_EnvironmentFromString (environment ?m) = Inl ''invalid environment specified: moon''"
    using e by simp_all
  show ?thesis
    using e ea em
      getAuthorizationTokenV2_unrecognized_environment
        [of stub_EnvironmentFromString ?a "''invalid environment specified: moon''"
            stub_TokenSource Some "()" "()" "''https://management.azure.com/''"
            ?m "''invalid environment specified: moon''"]
    by simp
qed

text \<open>
  C8, as stated, strips the trailing slash. On an endpoint that ends in two slashes the
  method hands the token source a configuration whose scope has lost both, while
  removing one slash and appending the suffix gives a different string.
\<close>

theorem getAuthorizationTokenV2_double_slash_counterexample:
  "servicePrincipalClientSecretAuth_getAuthorizationTokenV2
       stub_EnvironmentFromString stub_TokenSource Some
       \<lparr>ctx = None, clientId = ''c'', clientSecret = ''s'', environment = ''public'',
        subscriptionId = ''sub-1'', tenantId = ''t'', tenantOnly = False\<rparr>
       () () ''https://management.azure.com//'' =
     Inr (\<lparr>ClientCredentialsConfig.Environment = 0,
           ClientCredentialsConfig.TenantID = ''t'',
           ClientCredentialsConfig.ClientID = ''c'',
           ClientCredentialsConfig.ClientSecret = ''s'',
           Scopes = [''https://management.azure.com/.default''],
           TokenVersion = TokenVersion2\<rparr>,
          Background, ClientCredentialsSecretType) \<and>
   stripTrailingSlash_spec ''https://management.azure.com//'' @ ''/.default'' =
     ''https://management.azure.com//.default'' \<and>
   [''https://management.azure.com/.default''] \<noteq>
     [stripTrailingSlash_spec ''https://management.azure.com//'' @ ''/.default'']"
  by (simp add: servicePrincipalClientSecretAuth_getAuthorizationTokenV2_def
      stub_EnvironmentFromString_def stub_TokenSource_def TrimRight_def
      stripTrailingSlash_spec_def)

text \<open>
  C8, amended. When the environment name resolves, \<^verbatim>\<open>getAuthorizationTokenV2\<close> of
  either method calls the token source with a configuration whose \<^verbatim>\<open>Scopes\<close> is the
  one-element list of the endpoint without any of its trailing slashes, followed by
  \<^verbatim>\<open>/.default\<close>. The trimmed endpoint is the endpoint up to a run of slashes and does
  not itself end in a slash; it is the endpoint less one final slash whenever the
  endpoint does not end in two. For \<^verbatim>\<open>https://management.azure.com/\<close> the scope is
  \<^verbatim>\<open>https://management.azure.com/.default\<close>.
\<close>

theorem getAuthorizationTokenV2_scope:
  "(EnvironmentFromString (environment a) = Inr env \<longrightarrow>
      servicePrincipalClientSecretAuth_getAuthorizationTokenV2
          EnvironmentFromString TokenSource asAuthorizer a sender oauth endpoint =
        (case asAuthorizer
                (TokenSource
                   \<lparr>ClientCredentialsConfig.Environment = env,
                    ClientCredentialsConfig.TenantID = tenantId a,
                    ClientCredentialsConfig.ClientID = clientId a,
                    ClientCredentialsConfig.ClientSecret = clientSecret a,
                    Scopes = [TrimRight endpoint ''/'' @ ''/.default''],
                    TokenVersion = TokenVersion2\<rparr>
                   (case ctx a of None \<Rightarrow> Background | Some c \<Rightarrow> c)
                   ClientCredentialsSecretType) of
           Some authTyped \<Rightarrow> Inr authTyped
         | None \<Rightarrow> Inl ''returned auth.Authorizer does not implement autorest.Authorizer'')) \<and>
   (EnvironmentFromString (environment m) = Inr env' \<longrightarrow>
      servicePrincipalClientSecretMultiTenantAuth_getAuthorizationTokenV2
          EnvironmentFromString TokenSource asAuthorizer m sender oauth endpoint =
        (case asAuthorizer
                (TokenSource
                   \<lparr>ClientCredentialsConfig.Environment = env',
                    ClientCredentialsConfig.TenantID = tenantId m,
                    ClientCredentialsConfig.ClientID = clientId m,
                    ClientCredentialsConfig.ClientSecret = clientSecret m,
                    Scopes = [TrimRight endpoint ''/'' @ ''/.default''],
                    TokenVersion = TokenVersion2\<rparr>
                   (case ctx m of None \<Rightarrow> Background | Some c \<Rightarrow> c)
                   ClientCredentialsSecretType) of
           Some authTyped \<Rightarrow> Inr authTyped
         | None \<Rightarrow> Inl ''returned auth.Authorizer does not implement autorest.Authorizer'')) \<and>
   (\<exists>n. endpoint = TrimRight endpoint ''/'' @ replicate n CHR ''/'') \<and>
   (TrimRight endpoint ''/'' = [] \<or> last (TrimRight endpoint ''/'') \<noteq> CHR ''/'') \<and>
   (\<not> suffix ''//'' endpoint \<longrightarrow>
      TrimRight endpoint ''/'' = stripTrailingSlash_spec endpoint) \<and>
   TrimRight ''https://management.azure.com/'' ''/'' @ ''/.default'' =
     ''https://management.azure.com/.default''"
proof -
  have ex: "TrimRight ''https://management.azure.com/'' ''/'' @ ''/.default'' =
     ''https://management.azure.com/.default''"
    by (simp add: TrimRight_def)
  show ?thesis
    using TrimRight_slash_decomp [of endpoint] TrimRight_slash_last [of endpoint]
      TrimRight_eq_spec [of endpoint] ex
    by (simp add: servicePrincipalClientSecretAuth_getAuthorizationTokenV2_def
        servicePrincipalClientSecretMultiTenantAuth_getAuthorizationTokenV2_def)
qed

text \<open>
  Both methods at the management endpoint, with a token source that returns what it
  was called with.
\<close>

theorem getAuthorizationTokenV2_scope_witness:
  "stub_EnvironmentFromString ''public'' = Inr 0 \<and>
   \<not> suffix ''//'' ''https://management.azure.com/'' \<and>
   servicePrincipalClientSecretAuth_getAuthorizationTokenV2
       stub_EnvironmentFromString stub_TokenSource Some
       \<lparr>ctx = Some (Derived 1), clientId = ''c'', clientSecret = ''s'', environment = ''public'',
        subscriptionId = ''sub-1'', tenantId = ''t'', tenantOnly = False\<rparr>
       () () ''https://management.azure.com/'' =
     Inr (\<lparr>ClientCredentialsConfig.Environment = 0,
           ClientCredentialsConfig.TenantID = ''t'',
           ClientCredentialsConfig.ClientID = ''c'',
           ClientCredentialsConfig.ClientSecret = ''s'',
           Scopes = [''https://management.azure.com/.default''],
           TokenVersion = TokenVersion2\<rparr>,
          Derived 1, ClientCredentialsSecretType) \<and>
   servicePrincipalClientSecretMultiTenantAuth_getAuthorizationTokenV2
       stub_EnvironmentFromString stub_TokenSource Some
       \<lparr>ctx = None, clientId = ''c'', clientSecret = ''s'', environment = ''public'',
        subscriptionId = ''sub-1'', tenantId = ''t'', tenantOnly = False,
        auxiliaryTenantIDs = [''u'']\<rparr>
       () () ''https://management.azure.com/'' =
     Inr (\<lparr>ClientCredentialsConfig.Environment = 0,
           ClientCredentialsConfig.TenantID = ''t'',
           ClientCredentialsConfig.ClientID = ''c'',
           ClientCredentialsConfig.ClientSecret = ''s'',
           Scopes = [''https://management.azure.com/.default''],
           TokenVersion = TokenVersion2\<rparr>,
          Background, ClientCredentialsSecretType) \<and>
   stripTrailingSlash_spec ''https://management.azure.com/'' = ''https://management.azure.com''"
proof -
  let ?a = "\<lparr>ctx = Some (Derived 1), clientId = ''c'', clientSecret = ''s'', environment = ''public'',
        subscriptionId = ''sub-1'', tenantId = ''t'', tenantOnly = False\<rparr>"
  let ?m = "\<lparr>ctx = None, clientId = ''c'', clientSecret = ''s'', environment = ''public'',
        subscriptionId = ''sub-1'', tenantId = ''t'', tenantOnly = False,
        auxiliaryTenantIDs = [''u'']\<rparr>"
  let ?e = "''https://management.azure.com/''"
  have e: "stub_EnvironmentFromString ''public'' = Inr 0"
    by (simp add: stub_EnvironmentFromString_def)
  have ea: "stub_EnvironmentFromString (environment ?a) = Inr 0"
    and em: "stub_EnvironmentFromString (environment ?m) = Inr 0"
    using e by simp_all
  have ns: "\<not> suffix ''//'' ?e"
    by (simp add: suffix_def)
  note t = getAuthorizationTokenV2_scope
        [of stub_EnvironmentFromString ?a 0 stub_TokenSource Some "()" "()" ?e ?m 0]
  have tr: "TrimRight ?e ''/'' = ''https://management.azure.com''"
    by (simp add: TrimRight_def)
  have sp: "stripTrailingSlash_spec ?e = ''https://management.azure.com''"
    using t ns tr by simp
  have ra: "servicePrincipalClientSecretAuth_getAuthorizationTokenV2
       stub_EnvironmentFromString stub_TokenSource Some ?a () () ?e =
     Inr (\<lparr>ClientCredentialsConfig.Environment = 0,
           ClientCredentialsConfig.TenantID = ''t'',
           ClientCredentialsConfig.ClientID = ''c'',
           ClientCredentialsConfig.ClientSecret = ''s'',
           Scopes = [''https://management.azure.com/.default''],
           TokenVersion = TokenVersion2\<rparr>,
          Derived 1, ClientCredentialsSecretType)"
    using t ea by (simp add: tr stub_TokenSource_def)
  have rm: "servicePrincipalClientSecretMultiTenantAuth_getAuthorizationTokenV2
       stub_EnvironmentFromString stub_TokenSource Some ?m () () ?e =
     Inr (\<lparr>ClientCredentialsConfig.Environment = 0,
           ClientCredentialsConfig.TenantID = ''t'',
           ClientCredentialsConfig.ClientID = ''c'',
           ClientCredentialsConfig.ClientSecret = ''s'',
           Scopes = [''https://management.azure.com/.default''],
           TokenVersion = TokenVersion2\<rparr>,
          Background, ClientCredentialsSecretType)"
    using t em by (simp add: tr stub_TokenSource_def)
  show ?thesis
    using e ns ra rm sp by (intro conjI)
qed

text \<open>
  C9. For either method, \<^verbatim>\<open>build\<close> returns the nil error and an instance each of
  whose fields is the builder's field of the same name, unchanged; it never returns an
  error.
\<close>

theorem build_copies_every_field:
  "(case servicePrincipalClientSecretAuth_build a b of
      Inl err \<Rightarrow> False
    | Inr method \<Rightarrow>
        ctx method = Context b \<and> clientId method = ClientID b \<and>
        clientSecret method = ClientSecret b \<and> environment method = Environment b \<and>
        subscriptionId method = SubscriptionID b \<and> tenantId method = TenantID b \<and>
        tenantOnly method = TenantOnly b) \<and>
   (case servicePrincipalClientSecretMultiTenantAuth_build m b of
      Inl err \<Rightarrow> False
    | Inr method \<Rightarrow>
        ctx method = Context b \<and> clientId method = ClientID b \<and>
        clientSecret method = ClientSecret b \<and> environment method = Environment b \<and>
        subscriptionId method = SubscriptionID b \<and> tenantId method = TenantID b \<and>
        tenantOnly method = TenantOnly b \<and>
        auxiliaryTenantIDs method = AuxiliaryTenantIDs b)"
  by (simp add: servicePrincipalClientSecretAuth_build_def
      servicePrincipalClientSecretMultiTenantAuth_build_def)

text \<open>
  C10. On a multi-tenant and a single-tenant instance that agree on the context, the
  client id, the client secret, the environment and the tenant id, the two
  \<^verbatim>\<open>getAuthorizationTokenV2\<close> return the same result for every endpoint, whatever
  the sender and the OAuth configuration are. Replacing the auxiliary tenant ids of
  the multi-tenant instance does not change its result.
\<close>

theorem getAuthorizationTokenV2_variants_agree:
  "ctx m = ctx a \<and> clientId m = clientId a \<and> clientSecret m = clientSecret a \<and>
   environment m = environment a \<and> tenantId m = tenantId a \<Longrightarrow>
   servicePrincipalClientSecretMultiTenantAuth_getAuthorizationTokenV2
       EnvironmentFromString TokenSource asAuthorizer m sender oauth endpoint =
     servicePrincipalClientSecretAuth_getAuthorizationTokenV2
       EnvironmentFromString TokenSource asAuthorizer a sender' oauth' endpoint \<and>
   servicePrincipalClientSecretMultiTenantAuth_getAuthorizationTokenV2
       EnvironmentFromString TokenSource asAuthorizer (m\<lparr>auxiliaryTenantIDs := ids\<rparr>)
       sender oauth endpoint =
     servicePrincipalClientSecretMultiTenantAuth_getAuthorizationTokenV2
       EnvironmentFromString TokenSource asAuthorizer m sender oauth endpoint"
  by (simp add: servicePrincipalClientSecretAuth_getAuthorizationTokenV2_def
      servicePrincipalClientSecretMultiTenantAuth_getAuthorizationTokenV2_def
      Let_def split: sum.splits)

text \<open>
  Two instances that agree on the five fields and differ in the subscription id, the
  tenant-only flag and the sender.
\<close>

theorem getAuthorizationTokenV2_variants_agree_witness:
  "servicePrincipalClientSecretMultiTenantAuth_getAuthorizationTokenV2
       stub_EnvironmentFromString stub_TokenSource Some
       \<lparr>ctx = Some (Derived 1), clientId = ''c'', clientSecret = ''s'', environment = ''public'',
        subscriptionId = ''sub-1'', tenantId = ''t'', tenantOnly = True,
        auxiliaryTenantIDs = [''u'', ''v'']\<rparr>
       (3::nat) () ''https://graph.microsoft.com'' =
     servicePrincipalClientSecretAuth_getAuthorizationTokenV2
       stub_EnvironmentFromString stub_TokenSource Some
       \<lparr>ctx = Some (Derived 1), clientId = ''c'', clientSecret = ''s'', environment = ''public'',
        subscriptionId = [], tenantId = ''t'', tenantOnly = False\<rparr>
       (4::nat) () ''https://graph.microsoft.com''"
  using getAuthorizationTokenV2_variants_agree
    [of "\<lparr>ctx = Some (Derived 1), clientId = ''c'', clientSecret = ''s'', environment = ''public'',
          subscriptionId = ''sub-1'', tenantId = ''t'', tenantOnly = True,
          auxiliaryTenantIDs = [''u'', ''v'']\<rparr>"
        "\<lparr>ctx = Some (Derived 1), clientId = ''c'', clientSecret = ''s'', environment = ''public'',
          subscriptionId = [], tenantId = ''t'', tenantOnly = False\<rparr>"
        stub_EnvironmentFromString stub_TokenSource Some "3::nat" "()"
        "''https://graph.microsoft.com''" "4::nat" "()"]
  by simp

end
